theory Spec2Isabelle
  imports Complex_Main "HOL-Library.Multiset"
begin

section \<open>Values of the Python program\<close>

text \<open>
  The handlers of \<^verbatim>\<open>app/backend/app.py\<close> read a JSON body with
  \<^verbatim>\<open>request.get_json()\<close> and use the value as whatever Python type it parsed to.
  \<open>JNull\<close> is Python's \<^verbatim>\<open>None\<close> (the body \<^verbatim>\<open>null\<close>), \<open>JObj\<close> a \<^verbatim>\<open>dict\<close> given by
  its items (keys distinct, looked up with \<open>map_of\<close>). Numbers are restricted to
  integers. A string is the list of its characters.
\<close>

datatype json =
    JNull
  | JBool bool
  | JNum int
  | JStr string
  | JArr "json list"
  | JObj "(string \<times> json) list"

text \<open>Python truthiness, as used by \<^verbatim>\<open>if x:\<close> and \<^verbatim>\<open>not x\<close>.\<close>

fun truthy :: "json \<Rightarrow> bool" where
  "truthy JNull = False"
| "truthy (JBool b) = b"
| "truthy (JNum n) = (n \<noteq> 0)"
| "truthy (JStr s) = (s \<noteq> [])"
| "truthy (JArr xs) = (xs \<noteq> [])"
| "truthy (JObj kvs) = (kvs \<noteq> [])"

text \<open>
  The exceptions the handlers can meet. \<open>NotFound\<close> is werkzeug's \<^verbatim>\<open>NotFound\<close>, the
  \<^verbatim>\<open>HTTPException\<close> that \<^verbatim>\<open>get_or_404\<close> raises through \<^verbatim>\<open>abort(404)\<close>;
  \<open>BadRequest\<close> and \<open>UnsupportedMediaType\<close> are the ones \<^verbatim>\<open>request.get_json()\<close> raises.
  Like every \<^verbatim>\<open>HTTPException\<close> they are subclasses of \<^verbatim>\<open>Exception\<close>.
\<close>

datatype exn =
  NotFound | BadRequest | UnsupportedMediaType | KeyError | TypeError | AttributeError
  | ValueError | IntegrityError | ZeroDivisionError

definition bind_exn :: "exn + 'a \<Rightarrow> ('a \<Rightarrow> exn + 'b) \<Rightarrow> exn + 'b" where
  "bind_exn m f = (case m of Inl e \<Rightarrow> Inl e | Inr x \<Rightarrow> f x)"

text \<open>\<^verbatim>\<open>k in s\<close> on two strings: \<open>k\<close> occurs in \<open>s\<close> as a contiguous piece.\<close>

fun str_contains :: "string \<Rightarrow> string \<Rightarrow> bool" where
  "str_contains [] k = (k = [])"
| "str_contains (c # s) k = (take (length k) (c # s) = k \<or> str_contains s k)"

text \<open>
  \<^verbatim>\<open>k in data\<close>, \<^verbatim>\<open>data[k]\<close> and \<^verbatim>\<open>data.get(k, d)\<close> for a string key \<open>k\<close>, on each type
  the body can have: only a dict has \<^verbatim>\<open>get\<close> and string subscripts; \<^verbatim>\<open>in\<close> also works
  on a list (element test) and on a string (substring test).
\<close>

fun py_in :: "string \<Rightarrow> json \<Rightarrow> exn + bool" where
  "py_in k (JObj kvs) = Inr (map_of kvs k \<noteq> None)"
| "py_in k (JArr xs) = Inr (JStr k \<in> set xs)"
| "py_in k (JStr s) = Inr (str_contains s k)"
| "py_in k JNull = Inl TypeError"
| "py_in k (JBool b) = Inl TypeError"
| "py_in k (JNum n) = Inl TypeError"

fun py_getitem :: "json \<Rightarrow> string \<Rightarrow> exn + json" where
  "py_getitem (JObj kvs) k = (case map_of kvs k of None \<Rightarrow> Inl KeyError | Some v \<Rightarrow> Inr v)"
| "py_getitem (JArr xs) k = Inl TypeError"
| "py_getitem (JStr s) k = Inl TypeError"
| "py_getitem JNull k = Inl TypeError"
| "py_getitem (JBool b) k = Inl TypeError"
| "py_getitem (JNum n) k = Inl TypeError"

fun py_get :: "json \<Rightarrow> string \<Rightarrow> json \<Rightarrow> exn + json" where
  "py_get (JObj kvs) k d = Inr (case map_of kvs k of None \<Rightarrow> d | Some v \<Rightarrow> v)"
| "py_get (JArr xs) k d = Inl AttributeError"
| "py_get (JStr s) k d = Inl AttributeError"
| "py_get JNull k d = Inl AttributeError"
| "py_get (JBool b) k d = Inl AttributeError"
| "py_get (JNum n) k d = Inl AttributeError"

text \<open>
  The body of a request as \<^verbatim>\<open>request.get_json()\<close> meets it. The call returns the parsed
  value of a JSON body. It raises an \<^verbatim>\<open>HTTPException\<close> otherwise: \<^verbatim>\<open>BadRequest\<close> for a
  request declared as JSON whose body is empty or does not parse, and (in current Flask;
  releases before 2.1 returned \<^verbatim>\<open>None\<close>) \<^verbatim>\<open>UnsupportedMediaType\<close> for a request that is
  not declared as JSON, with or without a body.
\<close>

datatype request_body = NotJSON | Malformed | Parsed json

fun get_json :: "request_body \<Rightarrow> exn + json" where
  "get_json NotJSON = Inl UnsupportedMediaType"
| "get_json Malformed = Inl BadRequest"
| "get_json (Parsed v) = Inr v"

section \<open>Database models\<close>

text \<open>
  A \<^verbatim>\<open>datetime\<close> is a point on the clock's scale (microseconds). Every call of
  \<^verbatim>\<open>datetime.utcnow()\<close> is a reading of the clock that the caller of a handler supplies.
\<close>

type_synonym datetime = int

text \<open>
  \<^verbatim>\<open>class Task(db.Model)\<close>. The columns a handler assigns from the JSON body hold the
  value as assigned (Python attributes are untyped); what the database engine makes of a
  value that is not of the column's type is not part of the program text, and the
  theorems below speak about values of the column's type. The field \<open>task_id\<close> is the
  column \<^verbatim>\<open>id\<close>.
\<close>

record task =
  task_id :: nat
  title :: json
  description :: json
  completed :: json
  priority :: json
  category :: json
  due_date :: "datetime option"
  created_at :: datetime
  updated_at :: datetime

text \<open>\<^verbatim>\<open>class Category(db.Model)\<close>; \<open>cat_id\<close> and \<open>cat_created_at\<close> are \<^verbatim>\<open>id\<close> and \<^verbatim>\<open>created_at\<close>.\<close>

record category_row =
  cat_id :: nat
  name :: json
  color :: json
  cat_created_at :: datetime

text \<open>The two tables, rows in insertion order.\<close>

record store =
  tasks :: "task list"
  categories :: "category_row list"

text \<open>
  What a handler returns: \<^verbatim>\<open>jsonify({'success': True, ...}), status\<close> or
  \<^verbatim>\<open>jsonify({'success': False, 'error': ...}), status\<close>. The error text is a literal of
  the source or \<^verbatim>\<open>str(e)\<close> of the exception caught.
\<close>

datatype error_text = Literal string | Str exn

datatype 'a reply = Success nat 'a | Failure nat error_text

fun status :: "'a reply \<Rightarrow> nat" where
  "status (Success c x) = c"
| "status (Failure c e) = c"

section \<open>Task handlers\<close>

text \<open>\<^verbatim>\<open>Task.query.get_or_404(task_id)\<close>: the row with that primary key, or \<^verbatim>\<open>abort(404)\<close>.\<close>

definition get_or_404 :: "store \<Rightarrow> nat \<Rightarrow> exn + task" where
  "get_or_404 s i = (case find (\<lambda>t. task_id t = i) (tasks s) of None \<Rightarrow> Inl NotFound | Some t \<Rightarrow> Inr t)"

text \<open>
  \<^verbatim>\<open>get_task\<close> (GET \<^verbatim>\<open>/api/tasks/<id>\<close>) has no \<^verbatim>\<open>try\<close>: the \<^verbatim>\<open>NotFound\<close> leaves the
  handler and the registered \<^verbatim>\<open>@app.errorhandler(404)\<close> answers.
\<close>

definition not_found :: "'a reply" where
  "not_found = Failure 404 (Literal ''Resource not found'')"

definition get_task :: "store \<Rightarrow> nat \<Rightarrow> task reply" where
  "get_task s i = (case get_or_404 s i of Inl e \<Rightarrow> not_found | Inr t \<Rightarrow> Success 200 t)"

text \<open>
  \<^verbatim>\<open>delete_task\<close> (DELETE \<^verbatim>\<open>/api/tasks/<id>\<close>). The whole body, \<^verbatim>\<open>get_or_404\<close> included,
  stands inside \<^verbatim>\<open>try: ... except Exception as e:\<close>, whose branch rolls the session back
  and returns \<^verbatim>\<open>str(e)\<close> with status 500.
\<close>

definition delete_task_body :: "store \<Rightarrow> nat \<Rightarrow> exn + store" where
  "delete_task_body s i =
     bind_exn (get_or_404 s i)
       (\<lambda>t. Inr (s\<lparr>tasks := filter (\<lambda>u. task_id u \<noteq> task_id t) (tasks s)\<rparr>))"

definition delete_task :: "store \<Rightarrow> nat \<Rightarrow> store \<times> string reply" where
  "delete_task s i =
     (case delete_task_body s i of
        Inl e \<Rightarrow> (s, Failure 500 (Str e))
      | Inr s' \<Rightarrow> (s', Success 200 ''Task deleted successfully''))"

text \<open>
  \<^verbatim>\<open>s.replace('Z', '+00:00')\<close> replaces every \<^verbatim>\<open>Z\<close> of the string.
  \<^verbatim>\<open>datetime.fromisoformat\<close> is the library's parser, a parameter of the handlers that
  use it: \<open>None\<close> where it raises \<^verbatim>\<open>ValueError\<close>.
\<close>

definition replace_Z :: "string \<Rightarrow> string" where
  "replace_Z d = concat (map (\<lambda>c. if c = CHR ''Z'' then ''+00:00'' else [c]) d)"

text \<open>
  \<^verbatim>\<open>nullable=False\<close> on \<^verbatim>\<open>Task.title\<close>: a commit that writes a row whose title is
  \<^verbatim>\<open>None\<close> raises \<^verbatim>\<open>IntegrityError\<close>.
\<close>

definition commit_task :: "task \<Rightarrow> exn + task" where
  "commit_task t = (if title t = JNull then Inl IntegrityError else Inr t)"

text \<open>The integer primary key of a new row: one more than the largest in the table.\<close>

definition next_task_id :: "task list \<Rightarrow> nat" where
  "next_task_id ts = fold max (map task_id ts) 0 + 1"

text \<open>
  \<^verbatim>\<open>create_task\<close> (POST \<^verbatim>\<open>/api/tasks\<close>). \<^verbatim>\<open>data = request.get_json()\<close> is the first
  statement inside the \<^verbatim>\<open>try\<close>. The test \<^verbatim>\<open>not data or not data.get(k)\<close>, here with
  \<^verbatim>\<open>'title'\<close>, is evaluated left to right: \<^verbatim>\<open>data.get\<close> is reached only for a truthy body.
\<close>

definition field_missing :: "json \<Rightarrow> string \<Rightarrow> exn + bool" where
  "field_missing data k =
     (if \<not> truthy data then Inr True
      else bind_exn (py_get data k JNull) (\<lambda>v. Inr (\<not> truthy v)))"

text \<open>
  The row that \<^verbatim>\<open>Task(title=..., description=..., priority=..., category=..., due_date=...)\<close>
  and the commit produce. \<^verbatim>\<open>completed\<close>, \<^verbatim>\<open>created_at\<close> and \<^verbatim>\<open>updated_at\<close> are not passed
  to the constructor: the INSERT takes them from the column defaults, \<^verbatim>\<open>False\<close> and, for
  each of the two timestamp columns, its own call of \<^verbatim>\<open>datetime.utcnow\<close> (\<open>now1\<close> for
  \<^verbatim>\<open>created_at\<close>, \<open>now2\<close> for \<^verbatim>\<open>updated_at\<close>).
\<close>

definition new_task :: "store \<Rightarrow> json \<Rightarrow> datetime option \<Rightarrow> datetime \<Rightarrow> datetime \<Rightarrow> exn + task" where
  "new_task s data due now1 now2 =
     bind_exn (py_getitem data ''title'') (\<lambda>ttl.
     bind_exn (py_get data ''description'' (JStr [])) (\<lambda>descr.
     bind_exn (py_get data ''priority'' (JStr ''medium'')) (\<lambda>prio.
     bind_exn (py_get data ''category'' (JStr ''general'')) (\<lambda>cat.
       commit_task
         \<lparr>task_id = next_task_id (tasks s), title = ttl, description = descr,
          completed = JBool False, priority = prio, category = cat, due_date = due,
          created_at = now1, updated_at = now2\<rparr>))))"

definition add_task :: "store \<Rightarrow> json \<Rightarrow> datetime option \<Rightarrow> datetime \<Rightarrow> datetime \<Rightarrow> exn + store \<times> task reply" where
  "add_task s data due now1 now2 =
     bind_exn (new_task s data due now1 now2)
       (\<lambda>t. Inr (s\<lparr>tasks := tasks s @ [t]\<rparr>, Success 201 t))"

definition create_task_body ::
  "(string \<Rightarrow> datetime option) \<Rightarrow> store \<Rightarrow> request_body \<Rightarrow> datetime \<Rightarrow> datetime \<Rightarrow>
     exn + store \<times> task reply" where
  "create_task_body fromisoformat s body now1 now2 =
     bind_exn (get_json body) (\<lambda>data.
     bind_exn (field_missing data ''title'') (\<lambda>missing.
       if missing then Inr (s, Failure 400 (Literal ''Title is required''))
       else bind_exn (py_get data ''due_date'' JNull) (\<lambda>dd.
         if truthy dd then
           (case dd of
              JStr d \<Rightarrow>
                (case fromisoformat (replace_Z d) of
                   None \<Rightarrow> Inr (s, Failure 400 (Literal ''Invalid date format''))
                 | Some dt \<Rightarrow> add_task s data (Some dt) now1 now2)
            | _ \<Rightarrow> Inl AttributeError)
         else add_task s data None now1 now2)))"

definition create_task ::
  "(string \<Rightarrow> datetime option) \<Rightarrow> store \<Rightarrow> request_body \<Rightarrow> datetime \<Rightarrow> datetime \<Rightarrow>
     store \<times> task reply" where
  "create_task fromisoformat s body now1 now2 =
     (case create_task_body fromisoformat s body now1 now2 of
        Inl e \<Rightarrow> (s, Failure 500 (Str e))
      | Inr r \<Rightarrow> r)"

text \<open>
  \<^verbatim>\<open>update_task\<close> (PUT \<^verbatim>\<open>/api/tasks/<id>\<close>). After \<^verbatim>\<open>get_or_404\<close> and
  \<^verbatim>\<open>request.get_json()\<close>: \<^verbatim>\<open>if k in data: task.k = data[k]\<close> for the five plain columns; the \<^verbatim>\<open>due_date\<close> branch parses with no \<^verbatim>\<open>try\<close> of its own; then
  \<^verbatim>\<open>task.updated_at = datetime.utcnow()\<close> (the reading \<open>now\<close>) and the commit. Everything,
  \<^verbatim>\<open>get_or_404\<close> included, is inside \<^verbatim>\<open>try: ... except Exception\<close>.
\<close>

definition assign :: "json \<Rightarrow> string \<Rightarrow> (json \<Rightarrow> task \<Rightarrow> task) \<Rightarrow> task \<Rightarrow> exn + task" where
  "assign data k put t =
     bind_exn (py_in k data) (\<lambda>present.
       if present then bind_exn (py_getitem data k) (\<lambda>v. Inr (put v t)) else Inr t)"

definition assign_due_date :: "(string \<Rightarrow> datetime option) \<Rightarrow> json \<Rightarrow> task \<Rightarrow> exn + task" where
  "assign_due_date fromisoformat data t =
     bind_exn (py_in ''due_date'' data) (\<lambda>present.
       if present then
         bind_exn (py_getitem data ''due_date'') (\<lambda>v.
           if truthy v then
             (case v of
                JStr d \<Rightarrow>
                  (case fromisoformat (replace_Z d) of
                     None \<Rightarrow> Inl ValueError
                   | Some dt \<Rightarrow> Inr (t\<lparr>due_date := Some dt\<rparr>))
              | _ \<Rightarrow> Inl AttributeError)
           else Inr (t\<lparr>due_date := None\<rparr>))
       else Inr t)"

definition update_task_body ::
  "(string \<Rightarrow> datetime option) \<Rightarrow> store \<Rightarrow> nat \<Rightarrow> request_body \<Rightarrow> datetime \<Rightarrow> exn + task" where
  "update_task_body fromisoformat s i body now =
     bind_exn (get_or_404 s i) (\<lambda>t0.
     bind_exn (get_json body) (\<lambda>data.
     bind_exn (assign data ''title'' (\<lambda>v t. t\<lparr>title := v\<rparr>) t0) (\<lambda>t1.
     bind_exn (assign data ''description'' (\<lambda>v t. t\<lparr>description := v\<rparr>) t1) (\<lambda>t2.
     bind_exn (assign data ''completed'' (\<lambda>v t. t\<lparr>completed := v\<rparr>) t2) (\<lambda>t3.
     bind_exn (assign data ''priority'' (\<lambda>v t. t\<lparr>priority := v\<rparr>) t3) (\<lambda>t4.
     bind_exn (assign data ''category'' (\<lambda>v t. t\<lparr>category := v\<rparr>) t4) (\<lambda>t5.
     bind_exn (assign_due_date fromisoformat data t5) (\<lambda>t6.
       commit_task (t6\<lparr>updated_at := now\<rparr>)))))))))"

definition put_task :: "task \<Rightarrow> task list \<Rightarrow> task list" where
  "put_task t ts = map (\<lambda>u. if task_id u = task_id t then t else u) ts"

definition update_task ::
  "(string \<Rightarrow> datetime option) \<Rightarrow> store \<Rightarrow> nat \<Rightarrow> request_body \<Rightarrow> datetime \<Rightarrow>
     store \<times> task reply" where
  "update_task fromisoformat s i body now =
     (case update_task_body fromisoformat s i body now of
        Inl e \<Rightarrow> (s, Failure 500 (Str e))
      | Inr t \<Rightarrow> (s\<lparr>tasks := put_task t (tasks s)\<rparr>, Success 200 t))"

text \<open>
  The net effect of the five \<^verbatim>\<open>if k in data: task.k = data[k]\<close> statements when the body is
  a dict with items \<open>kvs\<close> (used to state what \<^verbatim>\<open>update_task\<close> does on a dict).
\<close>

definition plain_fields :: "(string \<times> json) list \<Rightarrow> task \<Rightarrow> task" where
  "plain_fields kvs t =
     (let t1 = (case map_of kvs ''title'' of None \<Rightarrow> t | Some v \<Rightarrow> t\<lparr>title := v\<rparr>);
          t2 = (case map_of kvs ''description'' of None \<Rightarrow> t1 | Some v \<Rightarrow> t1\<lparr>description := v\<rparr>);
          t3 = (case map_of kvs ''completed'' of None \<Rightarrow> t2 | Some v \<Rightarrow> t2\<lparr>completed := v\<rparr>);
          t4 = (case map_of kvs ''priority'' of None \<Rightarrow> t3 | Some v \<Rightarrow> t3\<lparr>priority := v\<rparr>)
      in (case map_of kvs ''category'' of None \<Rightarrow> t4 | Some v \<Rightarrow> t4\<lparr>category := v\<rparr>))"

text \<open>A sample parser for the examples: it accepts one timestamp, the epoch.\<close>

definition epoch_only :: "string \<Rightarrow> datetime option" where
  "epoch_only d = (if d = ''1970-01-01T00:00:00+00:00'' then Some 0 else None)"

subsection \<open>Listing\<close>

text \<open>
  The query string of GET \<^verbatim>\<open>/api/tasks\<close>: \<^verbatim>\<open>request.args.get(k)\<close> is \<^verbatim>\<open>None\<close> for a
  parameter that is not there, and its text otherwise (the empty string for \<^verbatim>\<open>?k=\<close>).
\<close>

record args =
  category_arg :: "string option"
  priority_arg :: "string option"
  completed_arg :: "string option"
  search_arg :: "string option"

text \<open>\<^verbatim>\<open>str.lower()\<close> on the letters A to Z; every other character is kept.\<close>

definition lower_char :: "char \<Rightarrow> char" where
  "lower_char c =
     (case map_of (zip ''ABCDEFGHIJKLMNOPQRSTUVWXYZ'' ''abcdefghijklmnopqrstuvwxyz'') c of
        None \<Rightarrow> c
      | Some l \<Rightarrow> l)"

definition lower :: "string \<Rightarrow> string" where
  "lower s = map lower_char s"

text \<open>
  \<^verbatim>\<open>Task.title.contains(search)\<close> is SQLAlchemy's \<^verbatim>\<open>column LIKE '%' || :search || '%'\<close>,
  evaluated by SQLite (\<^verbatim>\<open>sqlite:///tasks.db\<close>): in the pattern \<^verbatim>\<open>%\<close> matches any run of
  characters, \<^verbatim>\<open>_\<close> any one character, and a letter matches in either case. The characters
  of \<open>search\<close> are not escaped. \<open>like p s\<close>: the text \<open>s\<close> matches the pattern \<open>p\<close>.
\<close>

fun like :: "string \<Rightarrow> string \<Rightarrow> bool" where
  "like [] s = (s = [])"
| "like (p # ps) s =
     (if p = CHR ''%'' then
        like ps s \<or> (case s of [] \<Rightarrow> False | c # cs \<Rightarrow> like (p # ps) cs)
      else
        (case s of
           [] \<Rightarrow> False
         | c # cs \<Rightarrow> (p = CHR ''_'' \<or> lower_char p = lower_char c) \<and> like ps cs))"

text \<open>
  SQLite's \<^verbatim>\<open>LIKE\<close> reads the pattern and the text as C strings: each ends at its first
  NUL character.
\<close>

definition c_str :: "string \<Rightarrow> string" where
  "c_str s = takeWhile (\<lambda>c. c \<noteq> CHR 0x00) s"

text \<open>
  On a column that is \<^verbatim>\<open>NULL\<close> the test is not true. A failure of the store while a query
  or a commit runs is not part of the model (SQLite refuses a \<^verbatim>\<open>LIKE\<close> pattern of more than
  50000 bytes, for one; \<^verbatim>\<open>get_tasks\<close> would answer it from its \<^verbatim>\<open>except\<close> branch with
  status 500).
\<close>

fun sql_contains :: "json \<Rightarrow> string \<Rightarrow> bool" where
  "sql_contains (JStr s) x = like (c_str (''%'' @ x @ ''%'')) (c_str s)"
| "sql_contains v x = False"

text \<open>
  \<^verbatim>\<open>get_tasks\<close>: the query is narrowed by each \<^verbatim>\<open>if\<close> in turn. \<^verbatim>\<open>if category:\<close>,
  \<^verbatim>\<open>if priority:\<close> and \<^verbatim>\<open>if search:\<close> test truthiness (a parameter that is there with an
  empty value does not filter), \<^verbatim>\<open>if completed is not None:\<close> tests presence.
  \<^verbatim>\<open>order_by(Task.created_at.desc())\<close> is a sort on the negated timestamp; rows with equal
  timestamps stay in table order here (SQL leaves their order open).
\<close>

definition query_tasks :: "store \<Rightarrow> args \<Rightarrow> task list" where
  "query_tasks s a =
     (let q0 = tasks s;
          q1 = (case category_arg a of
                  None \<Rightarrow> q0
                | Some c \<Rightarrow> if c = [] then q0 else filter (\<lambda>t. category t = JStr c) q0);
          q2 = (case priority_arg a of
                  None \<Rightarrow> q1
                | Some p \<Rightarrow> if p = [] then q1 else filter (\<lambda>t. priority t = JStr p) q1);
          q3 = (case completed_arg a of
                  None \<Rightarrow> q2
                | Some v \<Rightarrow> filter (\<lambda>t. completed t = JBool (lower v = ''true'')) q2);
          q4 = (case search_arg a of
                  None \<Rightarrow> q3
                | Some x \<Rightarrow>
                    if x = [] then q3
                    else filter (\<lambda>t. sql_contains (title t) x \<or> sql_contains (description t) x) q3)
      in sort_key (\<lambda>t. - created_at t) q4)"

definition get_tasks :: "store \<Rightarrow> args \<Rightarrow> (nat \<times> task list) reply" where
  "get_tasks s a = (let ts = query_tasks s a in Success 200 (length ts, ts))"

subsection \<open>Statistics\<close>

text \<open>
  \<^verbatim>\<open>completed / total * 100\<close> and \<^verbatim>\<open>round(x, 2)\<close> are computed on Python floats (IEEE 754
  binary64). A float is represented by the rational number it stands for;
  \<open>float_round q\<close> is the float nearest to a rational \<open>q \<ge> 0\<close>, ties to the even
  significand (53 bits, smallest exponent \<open>-1074\<close>; the values met here are at most 100,
  so nothing overflows).
\<close>

function bit_length :: "int \<Rightarrow> int" where
  "bit_length n = (if n \<le> 0 then 0 else 1 + bit_length (n div 2))"
  by pat_completeness auto
termination
  by (relation "measure nat") auto

definition pow2 :: "int \<Rightarrow> rat" where
  "pow2 e = (if 0 \<le> e then 2 ^ nat e else 1 / 2 ^ nat (- e))"

text \<open>For \<open>q > 0\<close>: the \<open>e\<close> with \<open>2\<^sup>e \<le> q < 2\<^sup>e\<^sup>+\<^sup>1\<close>.\<close>

definition floor_log2 :: "rat \<Rightarrow> int" where
  "floor_log2 q =
     (let (n, d) = quotient_of q;
          e = bit_length n - bit_length d
      in if pow2 e \<le> q then e else e - 1)"

definition round_half_even :: "rat \<Rightarrow> int" where
  "round_half_even q =
     (let f = \<lfloor>q\<rfloor>; r = q - of_int f
      in if r < 1 / 2 then f else if 1 / 2 < r then f + 1 else if even f then f else f + 1)"

definition float_round :: "rat \<Rightarrow> rat" where
  "float_round q =
     (if q \<le> 0 then 0
      else let e = max (floor_log2 q - 52) (- 1074)
           in of_int (round_half_even (q / pow2 e)) * pow2 e)"

text \<open>
  \<^verbatim>\<open>a / b\<close> on two ints (the correctly rounded quotient, \<^verbatim>\<open>ZeroDivisionError\<close> for
  \<open>b = 0\<close>) and \<^verbatim>\<open>x * y\<close> on floats.
\<close>

definition float_div :: "int \<Rightarrow> int \<Rightarrow> exn + rat" where
  "float_div a b = (if b = 0 then Inl ZeroDivisionError else Inr (float_round (of_int a / of_int b)))"

definition float_mul :: "rat \<Rightarrow> rat \<Rightarrow> rat" where
  "float_mul x y = float_round (x * y)"

text \<open>
  \<^verbatim>\<open>round(x, 2)\<close> on a float: the decimal with two places nearest to the exact value of
  \<open>x\<close> (ties to even), converted back to the nearest float.
\<close>

definition py_round2 :: "rat \<Rightarrow> rat" where
  "py_round2 x = float_round (of_int (round_half_even (x * 100)) / 100)"

record stats_reply =
  total_tasks :: int
  completed_tasks :: int
  pending_tasks :: int
  completion_rate :: rat

text \<open>
  \<^verbatim>\<open>stats\<close> (GET \<^verbatim>\<open>/api/stats\<close>). Without tasks the rate is \<^verbatim>\<open>round(0, 2)\<close>, the int 0.
  The handler has no \<^verbatim>\<open>try\<close>: an exception would reach \<^verbatim>\<open>@app.errorhandler(500)\<close>.
\<close>

definition internal_error :: "'a reply" where
  "internal_error = Failure 500 (Literal ''Internal server error'')"

definition rate :: "int \<Rightarrow> int \<Rightarrow> exn + rat" where
  "rate n_completed n_total =
     (if n_total > 0 then
        bind_exn (float_div n_completed n_total) (\<lambda>x. Inr (py_round2 (float_mul x 100)))
      else Inr 0)"

definition stats :: "store \<Rightarrow> stats_reply reply" where
  "stats s =
     (let n_total = int (length (tasks s));
          n_completed = int (length (filter (\<lambda>t. completed t = JBool True) (tasks s)));
          pending = n_total - n_completed
      in case rate n_completed n_total of
           Inl e \<Rightarrow> internal_error
         | Inr r \<Rightarrow>
             Success 200
               \<lparr>total_tasks = n_total, completed_tasks = n_completed, pending_tasks = pending,
                completion_rate = r\<rparr>)"

section \<open>Category handlers\<close>

text \<open>
  \<^verbatim>\<open>name = db.Column(db.String(50), unique=True, nullable=False)\<close>: a commit that would
  store a second row with a name already in the table, or no name, raises
  \<^verbatim>\<open>IntegrityError\<close>.
\<close>

definition commit_category :: "store \<Rightarrow> category_row \<Rightarrow> exn + category_row" where
  "commit_category s c =
     (if name c = JNull \<or> name c \<in> set (map name (categories s)) then Inl IntegrityError
      else Inr c)"

definition next_cat_id :: "category_row list \<Rightarrow> nat" where
  "next_cat_id cs = fold max (map cat_id cs) 0 + 1"

text \<open>
  \<^verbatim>\<open>create_category\<close> (POST \<^verbatim>\<open>/api/categories\<close>); \<^verbatim>\<open>created_at\<close> is the column default,
  one call of \<^verbatim>\<open>datetime.utcnow\<close>. The \<^verbatim>\<open>except Exception\<close> branch rolls back and returns
  \<^verbatim>\<open>str(e)\<close> with status 500.
\<close>

definition create_category_body ::
  "store \<Rightarrow> request_body \<Rightarrow> datetime \<Rightarrow> exn + store \<times> category_row reply" where
  "create_category_body s body now =
     bind_exn (get_json body) (\<lambda>data.
     bind_exn (field_missing data ''name'') (\<lambda>missing.
       if missing then Inr (s, Failure 400 (Literal ''Name is required''))
       else
         bind_exn (py_getitem data ''name'') (\<lambda>nm.
         bind_exn (py_get data ''color'' (JStr ''#3B82F6'')) (\<lambda>col.
         bind_exn (commit_category s
             \<lparr>cat_id = next_cat_id (categories s), name = nm, color = col,
              cat_created_at = now\<rparr>) (\<lambda>c.
           Inr (s\<lparr>categories := categories s @ [c]\<rparr>, Success 201 c))))))"

definition create_category :: "store \<Rightarrow> request_body \<Rightarrow> datetime \<Rightarrow> store \<times> category_row reply" where
  "create_category s body now =
     (case create_category_body s body now of
        Inl e \<Rightarrow> (s, Failure 500 (Str e))
      | Inr r \<Rightarrow> r)"

section \<open>Auxiliary definitions for the statements\<close>

text \<open>
  The rows a request for the list selects: the conjunction of the tests that
  \<^verbatim>\<open>get_tasks\<close> applies for the parameters of the query string.
\<close>

definition selected :: "args \<Rightarrow> task \<Rightarrow> bool" where
  "selected a = (\<lambda>t.
     (\<forall>c. category_arg a = Some c \<longrightarrow> c \<noteq> [] \<longrightarrow> category t = JStr c) \<and>
     (\<forall>p. priority_arg a = Some p \<longrightarrow> p \<noteq> [] \<longrightarrow> priority t = JStr p) \<and>
     (\<forall>v. completed_arg a = Some v \<longrightarrow> completed t = JBool (lower v = ''true'')) \<and>
     (\<forall>x. search_arg a = Some x \<longrightarrow> x \<noteq> [] \<longrightarrow>
          sql_contains (title t) x \<or> sql_contains (description t) x))"

text \<open>Sample rows and stores for the examples.\<close>

definition sample_task :: task where
  "sample_task =
     \<lparr>task_id = 1, title = JStr ''a'', description = JStr [], completed = JBool False,
      priority = JStr ''medium'', category = JStr ''general'', due_date = None,
      created_at = 10, updated_at = 10\<rparr>"

definition sample_done :: task where
  "sample_done =
     \<lparr>task_id = 2, title = JStr ''Report'', description = JStr ''quarterly'',
      completed = JBool True, priority = JStr ''high'', category = JStr ''Work'',
      due_date = Some 0, created_at = 20, updated_at = 25\<rparr>"

definition sample_store :: store where
  "sample_store =
     \<lparr>tasks = [sample_task, sample_done, sample_task\<lparr>task_id := 3, created_at := 30\<rparr>],
      categories =
        [\<lparr>cat_id = 1, name = JStr ''Work'', color = JStr ''#3B82F6'', cat_created_at = 0\<rparr>]\<rparr>"

definition no_args :: args where
  "no_args = \<lparr>category_arg = None, priority_arg = None, completed_arg = None, search_arg = None\<rparr>"

section \<open>Lookup and replacement of rows\<close>

lemma get_or_404_absent:
  "i \<notin> task_id ` set (tasks s) \<Longrightarrow> get_or_404 s i = Inl NotFound"
  by (auto simp: get_or_404_def find_None_iff split: option.splits)

lemma get_task_absent:
  "i \<notin> task_id ` set (tasks s) \<Longrightarrow> get_task s i = Failure 404 (Literal ''Resource not found'')"
  by (simp add: get_task_def get_or_404_absent not_found_def)

lemma get_or_404_id: "get_or_404 s i = Inr t \<Longrightarrow> task_id t = i"
  by (auto simp: get_or_404_def find_Some_iff split: option.splits)

lemma find_put_task:
  "find (\<lambda>u. task_id u = i) ts = Some t \<Longrightarrow> task_id t' = i \<Longrightarrow>
   find (\<lambda>u. task_id u = i) (put_task t' ts) = Some t'"
  by (induction ts) (auto simp: put_task_def)

lemma get_or_404_put_task:
  "get_or_404 s i = Inr t \<Longrightarrow> task_id t' = i \<Longrightarrow>
   get_or_404 (s\<lparr>tasks := put_task t' (tasks s)\<rparr>) i = Inr t'"
  by (auto simp: get_or_404_def find_put_task split: option.splits)

lemma get_or_404_sample: "get_or_404 sample_store 2 = Inr sample_done"
  by (simp add: get_or_404_def sample_store_def sample_task_def sample_done_def)

section \<open>Deleting a task that does not exist\<close>

text \<open>
  C1. For an id that no stored task has, \<^verbatim>\<open>delete_task\<close> leaves the store as it was
  (so the number of tasks is unchanged), but the status it returns is 500 with the text
  of the \<^verbatim>\<open>NotFound\<close> exception, not 404: the \<^verbatim>\<open>except Exception\<close> of the handler catches
  the \<^verbatim>\<open>abort(404)\<close> of \<^verbatim>\<open>get_or_404\<close>. (\<open>get_task_absent\<close> is the sibling that does
  answer 404.)
\<close>

theorem delete_task_absent:
  "i \<notin> task_id ` set (tasks s) \<Longrightarrow>
     delete_task s i = (s, Failure 500 (Str NotFound)) \<and>
     status (snd (delete_task s i)) \<noteq> 404 \<and>
     length (tasks (fst (delete_task s i))) = length (tasks s)"
  by (simp add: delete_task_def delete_task_body_def bind_exn_def get_or_404_absent)

theorem delete_task_absent_witness:
  "(7::nat) \<notin> task_id ` set (tasks sample_store) \<and>
   delete_task sample_store 7 = (sample_store, Failure 500 (Str NotFound)) \<and>
   get_task sample_store 7 = Failure 404 (Literal ''Resource not found'')"
proof -
  have h: "(7::nat) \<notin> task_id ` set (tasks sample_store)"
    by (simp add: sample_store_def sample_task_def sample_done_def)
  from h delete_task_absent [OF h] get_task_absent [OF h] show ?thesis by simp
qed

section \<open>Updating a task\<close>

lemma assign_obj:
  "assign (JObj kvs) k put t = Inr (case map_of kvs k of None \<Rightarrow> t | Some v \<Rightarrow> put v t)"
  by (simp add: assign_def bind_exn_def split: option.splits)

lemma assign_due_date_obj:
  "assign_due_date f (JObj kvs) t =
     (case map_of kvs ''due_date'' of
        None \<Rightarrow> Inr t
      | Some v \<Rightarrow>
          if truthy v then
            (case v of
               JStr d \<Rightarrow> (case f (replace_Z d) of None \<Rightarrow> Inl ValueError
                          | Some dt \<Rightarrow> Inr (t\<lparr>due_date := Some dt\<rparr>))
             | _ \<Rightarrow> Inl AttributeError)
          else Inr (t\<lparr>due_date := None\<rparr>))"
  by (simp add: assign_due_date_def bind_exn_def split: option.splits)

lemma update_task_body_obj:
  "get_or_404 s i = Inr t \<Longrightarrow>
   update_task_body f s i (Parsed (JObj kvs)) now =
     bind_exn (assign_due_date f (JObj kvs) (plain_fields kvs t))
       (\<lambda>t6. commit_task (t6\<lparr>updated_at := now\<rparr>))"
  by (simp add: update_task_body_def assign_obj bind_exn_def plain_fields_def Let_def)

lemma plain_fields_frame:
  "task_id (plain_fields kvs t) = task_id t"
  "created_at (plain_fields kvs t) = created_at t"
  "updated_at (plain_fields kvs t) = updated_at t"
  "due_date (plain_fields kvs t) = due_date t"
  "map_of kvs ''title'' = None \<Longrightarrow> title (plain_fields kvs t) = title t"
  "map_of kvs ''description'' = None \<Longrightarrow> description (plain_fields kvs t) = description t"
  "map_of kvs ''completed'' = None \<Longrightarrow> completed (plain_fields kvs t) = completed t"
  "map_of kvs ''priority'' = None \<Longrightarrow> priority (plain_fields kvs t) = priority t"
  "map_of kvs ''category'' = None \<Longrightarrow> category (plain_fields kvs t) = category t"
  by (simp_all add: plain_fields_def Let_def split: option.splits)

lemma update_task_frame:
  assumes "get_or_404 s i = Inr t"
    and "update_task f s i (Parsed (JObj kvs)) now = (s', Success 200 t')"
  shows "s' = s\<lparr>tasks := put_task t' (tasks s)\<rparr> \<and>
     task_id t' = task_id t \<and> created_at t' = created_at t \<and> updated_at t' = now \<and>
     (map_of kvs ''title'' = None \<longrightarrow> title t' = title t) \<and>
     (map_of kvs ''description'' = None \<longrightarrow> description t' = description t) \<and>
     (map_of kvs ''completed'' = None \<longrightarrow> completed t' = completed t) \<and>
     (map_of kvs ''priority'' = None \<longrightarrow> priority t' = priority t) \<and>
     (map_of kvs ''category'' = None \<longrightarrow> category t' = category t) \<and>
     (map_of kvs ''due_date'' = None \<longrightarrow> due_date t' = due_date t)"
proof -
  from assms obtain t6 where a: "assign_due_date f (JObj kvs) (plain_fields kvs t) = Inr t6"
    and t': "t' = t6\<lparr>updated_at := now\<rparr>" and s': "s' = s\<lparr>tasks := put_task t' (tasks s)\<rparr>"
    by (auto simp: update_task_def update_task_body_obj bind_exn_def commit_task_def
        split: sum.splits if_splits)
  from a have "task_id t6 = task_id (plain_fields kvs t) \<and> title t6 = title (plain_fields kvs t) \<and>
      description t6 = description (plain_fields kvs t) \<and> completed t6 = completed (plain_fields kvs t) \<and>
      priority t6 = priority (plain_fields kvs t) \<and> category t6 = category (plain_fields kvs t) \<and>
      created_at t6 = created_at (plain_fields kvs t)"
    and "map_of kvs ''due_date'' = None \<longrightarrow> t6 = plain_fields kvs t"
    by (auto simp: assign_due_date_obj split: option.splits if_splits json.splits)
  then show ?thesis using t' s' by (auto simp: plain_fields_frame)
qed

lemma update_task_completed:
  assumes "get_or_404 s i = Inr t" "title t \<noteq> JNull"
  shows "update_task f s i (Parsed (JObj [(''completed'', JBool True)])) now =
    (s\<lparr>tasks := put_task (t\<lparr>completed := JBool True, updated_at := now\<rparr>) (tasks s)\<rparr>,
     Success 200 (t\<lparr>completed := JBool True, updated_at := now\<rparr>))"
  using assms
  by (simp add: update_task_def update_task_body_obj assign_due_date_obj bind_exn_def
      commit_task_def plain_fields_def)

text \<open>
  C5. For a stored task \<open>t\<close> (with the title the schema requires), the update with the body
  \<^verbatim>\<open>{"completed": true}\<close> succeeds and stores and returns \<open>t\<close> with \<open>completed\<close> set to
  true and \<open>updated_at\<close> set to the current time, every other field as it was. More
  generally, whenever an update with a dict body succeeds, the id and \<open>created_at\<close> are
  unchanged, \<open>updated_at\<close> is the current time, and each of \<open>title\<close>, \<open>description\<close>,
  \<open>completed\<close>, \<open>priority\<close>, \<open>category\<close>, \<open>due_date\<close> whose key is absent from the
  body is unchanged.
\<close>

theorem update_completed_only:
  assumes "get_or_404 s i = Inr t" and "title t \<noteq> JNull"
  shows "update_task f s i (Parsed (JObj [(''completed'', JBool True)])) now =
      (s\<lparr>tasks := put_task (t\<lparr>completed := JBool True, updated_at := now\<rparr>) (tasks s)\<rparr>,
       Success 200 (t\<lparr>completed := JBool True, updated_at := now\<rparr>)) \<and>
     get_or_404 (fst (update_task f s i (Parsed (JObj [(''completed'', JBool True)])) now)) i =
       Inr (t\<lparr>completed := JBool True, updated_at := now\<rparr>) \<and>
     (\<forall>kvs s' t'. update_task f s i (Parsed (JObj kvs)) now = (s', Success 200 t') \<longrightarrow>
        s' = s\<lparr>tasks := put_task t' (tasks s)\<rparr> \<and>
        task_id t' = task_id t \<and> created_at t' = created_at t \<and> updated_at t' = now \<and>
        (map_of kvs ''title'' = None \<longrightarrow> title t' = title t) \<and>
        (map_of kvs ''description'' = None \<longrightarrow> description t' = description t) \<and>
        (map_of kvs ''completed'' = None \<longrightarrow> completed t' = completed t) \<and>
        (map_of kvs ''priority'' = None \<longrightarrow> priority t' = priority t) \<and>
        (map_of kvs ''category'' = None \<longrightarrow> category t' = category t) \<and>
        (map_of kvs ''due_date'' = None \<longrightarrow> due_date t' = due_date t))"
proof -
  let ?t' = "t\<lparr>completed := JBool True, updated_at := now\<rparr>"
  note u = update_task_completed [OF assms, of f now]
  have "task_id ?t' = i" using get_or_404_id [OF assms(1)] by simp
  from get_or_404_put_task [OF assms(1) this] u
  have "get_or_404 (fst (update_task f s i (Parsed (JObj [(''completed'', JBool True)])) now)) i = Inr ?t'"
    by simp
  with u update_task_frame [OF assms(1)] show ?thesis by blast
qed

theorem update_completed_only_witness:
  "update_task epoch_only sample_store 2 (Parsed (JObj [(''completed'', JBool True)])) 99 =
     (sample_store\<lparr>tasks := put_task (sample_done\<lparr>completed := JBool True, updated_at := 99\<rparr>)
         (tasks sample_store)\<rparr>,
      Success 200 (sample_done\<lparr>completed := JBool True, updated_at := 99\<rparr>))"
proof -
  have "title sample_done \<noteq> JNull" by (simp add: sample_done_def)
  from update_completed_only [OF get_or_404_sample this, of epoch_only 99] show ?thesis
    by simp
qed

text \<open>
  C10. For a stored task and any string \<open>x\<close>, the empty one included, the update with body
  \<^verbatim>\<open>{"title": x}\<close> succeeds with status 200 and the task then stored under the id has
  title \<open>x\<close>; \<^verbatim>\<open>update_task\<close> has no test of the title, while \<^verbatim>\<open>create_task\<close> refuses the
  empty title with status 400.
\<close>

theorem update_title_any_string:
  assumes "get_or_404 s i = Inr t"
  shows "update_task f s i (Parsed (JObj [(''title'', JStr x)])) now =
      (s\<lparr>tasks := put_task (t\<lparr>title := JStr x, updated_at := now\<rparr>) (tasks s)\<rparr>,
       Success 200 (t\<lparr>title := JStr x, updated_at := now\<rparr>)) \<and>
     get_or_404 (fst (update_task f s i (Parsed (JObj [(''title'', JStr x)])) now)) i =
       Inr (t\<lparr>title := JStr x, updated_at := now\<rparr>) \<and>
     create_task f s (Parsed (JObj [(''title'', JStr [])])) now now =
       (s, Failure 400 (Literal ''Title is required''))"
proof -
  have u: "update_task f s i (Parsed (JObj [(''title'', JStr x)])) now =
      (s\<lparr>tasks := put_task (t\<lparr>title := JStr x, updated_at := now\<rparr>) (tasks s)\<rparr>,
       Success 200 (t\<lparr>title := JStr x, updated_at := now\<rparr>))"
    using assms
    by (simp add: update_task_def update_task_body_obj assign_due_date_obj bind_exn_def
        commit_task_def plain_fields_def)
  have "task_id (t\<lparr>title := JStr x, updated_at := now\<rparr>) = i"
    using get_or_404_id [OF assms] by simp
  from get_or_404_put_task [OF assms this] u
  have g: "get_or_404 (fst (update_task f s i (Parsed (JObj [(''title'', JStr x)])) now)) i =
       Inr (t\<lparr>title := JStr x, updated_at := now\<rparr>)" by simp
  have "create_task f s (Parsed (JObj [(''title'', JStr [])])) now now =
       (s, Failure 400 (Literal ''Title is required''))"
    by (simp add: create_task_def create_task_body_def field_missing_def bind_exn_def)
  with u g show ?thesis by simp
qed

theorem update_title_any_string_witness:
  "get_or_404 (fst (update_task epoch_only sample_store 2 (Parsed (JObj [(''title'', JStr [])])) 99)) 2 =
     Inr (sample_done\<lparr>title := JStr [], updated_at := 99\<rparr>) \<and>
   status (snd (update_task epoch_only sample_store 2 (Parsed (JObj [(''title'', JStr [])])) 99)) = 200"
proof -
  note w = update_title_any_string [OF get_or_404_sample, of epoch_only "[]" 99]
  from w have "status (snd (update_task epoch_only sample_store 2 (Parsed (JObj [(''title'', JStr [])])) 99)) = 200"
    by simp
  with w show ?thesis by blast
qed

lemma create_task_bad_due_date:
  assumes "map_of kvs ''title'' = Some v" "truthy v" "map_of kvs ''due_date'' = Some (JStr d)"
    "d \<noteq> []" "f (replace_Z d) = None"
  shows "create_task f s (Parsed (JObj kvs)) now1 now2 = (s, Failure 400 (Literal ''Invalid date format''))"
  using assms
  by (auto simp add: create_task_def create_task_body_def field_missing_def bind_exn_def)

text \<open>
  C2. For a stored task and a dict body whose \<^verbatim>\<open>due_date\<close> is a non-empty string that
  \<^verbatim>\<open>fromisoformat\<close> rejects (after the replacement of \<^verbatim>\<open>Z\<close>), \<^verbatim>\<open>update_task\<close> leaves the
  store unchanged, but it returns status 500 with the text of the \<^verbatim>\<open>ValueError\<close>, not
  400: the parse has no \<^verbatim>\<open>try\<close> of its own here, so the handler's \<^verbatim>\<open>except Exception\<close>
  answers. (\<open>create_task_bad_due_date\<close>: \<^verbatim>\<open>create_task\<close> catches the \<^verbatim>\<open>ValueError\<close> and
  answers 400.)
\<close>

theorem update_task_bad_due_date:
  assumes "get_or_404 s i = Inr t" and "map_of kvs ''due_date'' = Some (JStr d)" and "d \<noteq> []"
    and "f (replace_Z d) = None"
  shows "update_task f s i (Parsed (JObj kvs)) now = (s, Failure 500 (Str ValueError)) \<and>
     status (snd (update_task f s i (Parsed (JObj kvs)) now)) \<noteq> 400 \<and>
     get_or_404 (fst (update_task f s i (Parsed (JObj kvs)) now)) i = Inr t"
  using assms
  by (simp add: update_task_def update_task_body_obj assign_due_date_obj bind_exn_def)

theorem update_task_bad_due_date_witness:
  "update_task epoch_only sample_store 2 (Parsed (JObj [(''due_date'', JStr ''tomorrow'')])) 99 =
     (sample_store, Failure 500 (Str ValueError)) \<and>
   create_task epoch_only sample_store
       (Parsed (JObj [(''title'', JStr ''x''), (''due_date'', JStr ''tomorrow'')])) 98 99 =
     (sample_store, Failure 400 (Literal ''Invalid date format''))"
proof -
  have p: "epoch_only (replace_Z ''tomorrow'') = None"
    by (simp add: epoch_only_def replace_Z_def)
  have "update_task epoch_only sample_store 2 (Parsed (JObj [(''due_date'', JStr ''tomorrow'')])) 99 =
     (sample_store, Failure 500 (Str ValueError))"
    using update_task_bad_due_date [where s = sample_store and i = 2 and t = sample_done
        and kvs = "[(''due_date'', JStr ''tomorrow'')]" and d = "''tomorrow''" and f = epoch_only
        and now = 99] get_or_404_sample p
    by simp
  moreover have "create_task epoch_only sample_store
       (Parsed (JObj [(''title'', JStr ''x''), (''due_date'', JStr ''tomorrow'')])) 98 99 =
     (sample_store, Failure 400 (Literal ''Invalid date format''))"
    using create_task_bad_due_date [where kvs = "[(''title'', JStr ''x''), (''due_date'', JStr ''tomorrow'')]"
        and v = "JStr ''x''" and d = "''tomorrow''" and f = epoch_only and s = sample_store
        and ?now1.0 = 98 and ?now2.0 = 99] p
    by simp
  ultimately show ?thesis by simp
qed

section \<open>Creating a task\<close>

text \<open>
  C8. For a request whose JSON body is falsy (\<^verbatim>\<open>null\<close>, \<^verbatim>\<open>{}\<close> and the like), or a dict in
  which \<^verbatim>\<open>title\<close> is absent or empty (the empty string, or another falsy value),
  \<^verbatim>\<open>create_task\<close> answers 400 with \<^verbatim>\<open>Title is required\<close>. For a request without a JSON
  body it does not: \<^verbatim>\<open>request.get_json()\<close> raises inside the \<^verbatim>\<open>try\<close>, and the handler's
  \<^verbatim>\<open>except Exception\<close> answers 500. The same holds for a truthy body that is not a dict
  (\<^verbatim>\<open>data.get\<close> raises \<^verbatim>\<open>AttributeError\<close>). In every one of these cases the store, and with
  it the number of tasks, is unchanged.
\<close>

theorem create_task_without_title:
  "create_task f s NotJSON now1 now2 = (s, Failure 500 (Str UnsupportedMediaType)) \<and>
   create_task f s Malformed now1 now2 = (s, Failure 500 (Str BadRequest)) \<and>
   (\<forall>data. truthy data \<and> (\<forall>kvs. data \<noteq> JObj kvs) \<longrightarrow>
      create_task f s (Parsed data) now1 now2 = (s, Failure 500 (Str AttributeError))) \<and>
   (\<forall>data. \<not> truthy data \<or>
        (\<exists>kvs. data = JObj kvs \<and> (\<forall>v. map_of kvs ''title'' = Some v \<longrightarrow> \<not> truthy v)) \<longrightarrow>
      create_task f s (Parsed data) now1 now2 = (s, Failure 400 (Literal ''Title is required'')))"
proof (intro conjI allI impI)
  show "create_task f s NotJSON now1 now2 = (s, Failure 500 (Str UnsupportedMediaType))"
    by (simp add: create_task_def create_task_body_def bind_exn_def)
  show "create_task f s Malformed now1 now2 = (s, Failure 500 (Str BadRequest))"
    by (simp add: create_task_def create_task_body_def bind_exn_def)
next
  fix data
  assume "truthy data \<and> (\<forall>kvs. data \<noteq> JObj kvs)"
  then have "field_missing data ''title'' = Inl AttributeError"
    by (cases data) (simp_all add: field_missing_def bind_exn_def)
  then show "create_task f s (Parsed data) now1 now2 = (s, Failure 500 (Str AttributeError))"
    by (simp add: create_task_def create_task_body_def bind_exn_def)
next
  fix data
  assume "\<not> truthy data \<or>
     (\<exists>kvs. data = JObj kvs \<and> (\<forall>v. map_of kvs ''title'' = Some v \<longrightarrow> \<not> truthy v))"
  then have "field_missing data ''title'' = Inr True"
    by (auto simp: field_missing_def bind_exn_def split: option.splits)
  then show "create_task f s (Parsed data) now1 now2 = (s, Failure 400 (Literal ''Title is required''))"
    by (simp add: create_task_def create_task_body_def bind_exn_def)
qed

theorem create_task_without_title_witness:
  "create_task epoch_only sample_store Malformed 98 99 =
     (sample_store, Failure 500 (Str BadRequest)) \<and>
   create_task epoch_only sample_store NotJSON 98 99 =
     (sample_store, Failure 500 (Str UnsupportedMediaType)) \<and>
   create_task epoch_only sample_store (Parsed (JArr [JNum 1])) 98 99 =
     (sample_store, Failure 500 (Str AttributeError)) \<and>
   create_task epoch_only sample_store (Parsed JNull) 98 99 =
     (sample_store, Failure 400 (Literal ''Title is required'')) \<and>
   create_task epoch_only sample_store (Parsed (JObj [(''description'', JStr ''d'')])) 98 99 =
     (sample_store, Failure 400 (Literal ''Title is required'')) \<and>
   create_task epoch_only sample_store (Parsed (JObj [(''title'', JStr [])])) 98 99 =
     (sample_store, Failure 400 (Literal ''Title is required''))"
proof -
  note w = create_task_without_title [of epoch_only sample_store 98 99]
  from w have 1: "create_task epoch_only sample_store (Parsed (JArr [JNum 1])) 98 99 =
     (sample_store, Failure 500 (Str AttributeError))" by simp
  from w have r: "\<And>data. \<not> truthy data \<or>
        (\<exists>kvs. data = JObj kvs \<and> (\<forall>v. map_of kvs ''title'' = Some v \<longrightarrow> \<not> truthy v)) \<Longrightarrow>
      create_task epoch_only sample_store (Parsed data) 98 99 =
        (sample_store, Failure 400 (Literal ''Title is required''))" by blast
  have 2: "create_task epoch_only sample_store (Parsed JNull) 98 99 =
     (sample_store, Failure 400 (Literal ''Title is required''))" by (rule r) simp
  have 3: "create_task epoch_only sample_store (Parsed (JObj [(''description'', JStr ''d'')])) 98 99 =
     (sample_store, Failure 400 (Literal ''Title is required''))" by (rule r) simp
  have 4: "create_task epoch_only sample_store (Parsed (JObj [(''title'', JStr [])])) 98 99 =
     (sample_store, Failure 400 (Literal ''Title is required''))" by (rule r) simp
  from w 1 2 3 4 show ?thesis by blast
qed

text \<open>
  C4, as the code has it. For a body that holds a non-empty string \<open>x\<close> as \<^verbatim>\<open>title\<close> and
  nothing else, \<^verbatim>\<open>create_task\<close> answers 201 with the new row, which it appends to the
  table: priority \<^verbatim>\<open>medium\<close>, category \<^verbatim>\<open>general\<close>, completed false, empty description, no
  due date; \<open>created_at\<close> and \<open>updated_at\<close> are two readings of the clock, one per column
  default, in this order. They are equal exactly when the two readings are.
\<close>

theorem create_task_title_only:
  "x \<noteq> [] \<Longrightarrow>
   create_task f s (Parsed (JObj [(''title'', JStr x)])) now1 now2 =
     (s\<lparr>tasks := tasks s @
         [\<lparr>task_id = next_task_id (tasks s), title = JStr x, description = JStr [],
           completed = JBool False, priority = JStr ''medium'', category = JStr ''general'',
           due_date = None, created_at = now1, updated_at = now2\<rparr>]\<rparr>,
      Success 201
        \<lparr>task_id = next_task_id (tasks s), title = JStr x, description = JStr [],
         completed = JBool False, priority = JStr ''medium'', category = JStr ''general'',
         due_date = None, created_at = now1, updated_at = now2\<rparr>)"
  by (simp add: create_task_def create_task_body_def field_missing_def bind_exn_def
      add_task_def new_task_def commit_task_def)

theorem create_task_title_only_witness:
  "create_task epoch_only \<lparr>tasks = [], categories = []\<rparr> (Parsed (JObj [(''title'', JStr ''Buy milk'')])) 7 7 =
     (\<lparr>tasks =
         [\<lparr>task_id = 1, title = JStr ''Buy milk'', description = JStr [],
           completed = JBool False, priority = JStr ''medium'', category = JStr ''general'',
           due_date = None, created_at = 7, updated_at = 7\<rparr>],
       categories = []\<rparr>,
      Success 201
        \<lparr>task_id = 1, title = JStr ''Buy milk'', description = JStr [],
         completed = JBool False, priority = JStr ''medium'', category = JStr ''general'',
         due_date = None, created_at = 7, updated_at = 7\<rparr>)"
  using create_task_title_only [of "''Buy milk''" epoch_only "\<lparr>tasks = [], categories = []\<rparr>" 7 7]
  by (simp add: next_task_id_def)

text \<open>
  The claim C4 as written (\<open>created_at\<close> equal to \<open>updated_at\<close>) fails when the clock
  moves between the two column defaults: here the readings are 1 and 2.
\<close>

theorem create_task_timestamps_counterexample:
  "snd (create_task epoch_only \<lparr>tasks = [], categories = []\<rparr> (Parsed (JObj [(''title'', JStr ''a'')])) 1 2) =
     Success 201
        \<lparr>task_id = 1, title = JStr ''a'', description = JStr [],
         completed = JBool False, priority = JStr ''medium'', category = JStr ''general'',
         due_date = None, created_at = 1, updated_at = 2\<rparr>
   \<and> created_at \<lparr>task_id = 1, title = JStr ''a'', description = JStr [],
         completed = JBool False, priority = JStr ''medium'', category = JStr ''general'',
         due_date = None, created_at = 1, updated_at = 2\<rparr>
     \<noteq> updated_at \<lparr>task_id = 1, title = JStr ''a'', description = JStr [],
         completed = JBool False, priority = JStr ''medium'', category = JStr ''general'',
         due_date = None, created_at = 1, updated_at = 2\<rparr>"
  by (simp add: create_task_def create_task_body_def field_missing_def bind_exn_def
      add_task_def new_task_def commit_task_def next_task_id_def)

section \<open>Creating a category\<close>

lemma create_category_fresh:
  assumes "map_of kvs ''name'' = Some (JStr n)" "n \<noteq> []"
    and "JStr n \<notin> name ` set (categories s)"
  shows "\<exists>c. create_category s (Parsed (JObj kvs)) now = (s\<lparr>categories := categories s @ [c]\<rparr>, Success 201 c) \<and>
     name c = JStr n"
proof -
  from assms(1) have "kvs \<noteq> []" by auto
  with assms show ?thesis
    by (simp add: create_category_def create_category_body_def field_missing_def bind_exn_def
        commit_category_def)
qed

text \<open>
  C3. When the body's \<^verbatim>\<open>name\<close> is a (non-empty) string that a stored category already has
  as its name, \<^verbatim>\<open>create_category\<close> fails: the commit raises the \<^verbatim>\<open>IntegrityError\<close> of the
  unique constraint, the session is rolled back, and the reply is the error reply of the
  handler (\<^verbatim>\<open>success: False\<close>, the text of the exception, status 500). No row is added: the
  store, and with it the category table, is unchanged.
\<close>

theorem create_category_duplicate:
  assumes "map_of kvs ''name'' = Some (JStr n)" and "n \<noteq> []"
    and "JStr n \<in> name ` set (categories s)"
  shows "create_category s (Parsed (JObj kvs)) now = (s, Failure 500 (Str IntegrityError)) \<and>
     categories (fst (create_category s (Parsed (JObj kvs)) now)) = categories s"
proof -
  from assms(1) have "kvs \<noteq> []" by auto
  with assms show ?thesis
    by (simp add: create_category_def create_category_body_def field_missing_def bind_exn_def
        commit_category_def)
qed

theorem create_category_duplicate_witness:
  "create_category sample_store (Parsed (JObj [(''name'', JStr ''Work'')])) 5 =
     (sample_store, Failure 500 (Str IntegrityError)) \<and>
   length (categories (fst (create_category sample_store (Parsed (JObj [(''name'', JStr ''Work'')])) 5))) = 1"
proof -
  have "JStr ''Work'' \<in> name ` set (categories sample_store)"
    by (simp add: sample_store_def)
  from create_category_duplicate [where kvs = "[(''name'', JStr ''Work'')]" and n = "''Work''"
      and s = sample_store and now = 5, OF _ _ this]
  show ?thesis by (simp add: sample_store_def)
qed

section \<open>Listing tasks\<close>

lemma stage_eq:
  "(case ar of None \<Rightarrow> q | Some c \<Rightarrow> if c = [] then q else filter (P c) q)
     = filter (\<lambda>t. \<forall>c. ar = Some c \<longrightarrow> c \<noteq> [] \<longrightarrow> P c t) q"
  by (cases ar) auto

lemma stage_completed_eq:
  "(case ar of None \<Rightarrow> q | Some v \<Rightarrow> filter (P v) q)
     = filter (\<lambda>t. \<forall>v. ar = Some v \<longrightarrow> P v t) q"
  by (cases ar) auto

lemma query_tasks_eq:
  "query_tasks s a = sort_key (\<lambda>t. - created_at t) (filter (selected a) (tasks s))"
proof -
  have "query_tasks s a =
     sort_key (\<lambda>t. - created_at t)
       (filter (\<lambda>t. \<forall>x. search_arg a = Some x \<longrightarrow> x \<noteq> [] \<longrightarrow>
                   sql_contains (title t) x \<or> sql_contains (description t) x)
         (filter (\<lambda>t. \<forall>v. completed_arg a = Some v \<longrightarrow> completed t = JBool (lower v = ''true''))
           (filter (\<lambda>t. \<forall>p. priority_arg a = Some p \<longrightarrow> p \<noteq> [] \<longrightarrow> priority t = JStr p)
             (filter (\<lambda>t. \<forall>c. category_arg a = Some c \<longrightarrow> c \<noteq> [] \<longrightarrow> category t = JStr c)
               (tasks s)))))"
    unfolding query_tasks_def Let_def
    by (simp only: stage_eq [where P = "\<lambda>c t. category t = JStr c"]
        stage_eq [where P = "\<lambda>c t. priority t = JStr c"]
        stage_eq [where P = "\<lambda>x t. sql_contains (title t) x \<or> sql_contains (description t) x"]
        stage_completed_eq [where P = "\<lambda>v t. completed t = JBool (lower v = ''true'')"])
  also have "\<dots> = sort_key (\<lambda>t. - created_at t) (filter (selected a) (tasks s))"
    by (simp add: selected_def)
  finally show ?thesis .
qed










text \<open>
  C9. With \<^verbatim>\<open>completed=v\<close> in the query string, whatever the text \<open>v\<close>, the request is
  answered with status 200, and its list is the list of the same request without the
  parameter, filtered by \<open>completed = (lower v = ''true'')\<close>. So \<^verbatim>\<open>1\<close>, \<^verbatim>\<open>yes\<close> and the
  empty value select the tasks that are not completed, and \<^verbatim>\<open>true\<close>, \<^verbatim>\<open>True\<close>, \<^verbatim>\<open>TRUE\<close>
  the completed ones.
\<close>

theorem get_tasks_completed_param:
  "query_tasks s (a\<lparr>completed_arg := Some v\<rparr>) =
     filter (\<lambda>t. completed t = JBool (lower v = ''true''))
       (query_tasks s (a\<lparr>completed_arg := None\<rparr>)) \<and>
   get_tasks s (a\<lparr>completed_arg := Some v\<rparr>) =
     Success 200 (length (query_tasks s (a\<lparr>completed_arg := Some v\<rparr>)),
       query_tasks s (a\<lparr>completed_arg := Some v\<rparr>)) \<and>
   (v \<in> {''1'', ''yes'', []} \<longrightarrow>
      query_tasks s (a\<lparr>completed_arg := Some v\<rparr>) =
        filter (\<lambda>t. completed t = JBool False) (query_tasks s (a\<lparr>completed_arg := None\<rparr>))) \<and>
   (v \<in> {''true'', ''True'', ''TRUE''} \<longrightarrow>
      query_tasks s (a\<lparr>completed_arg := Some v\<rparr>) =
        filter (\<lambda>t. completed t = JBool True) (query_tasks s (a\<lparr>completed_arg := None\<rparr>)))"
proof -
  have "filter (selected (a\<lparr>completed_arg := Some v\<rparr>)) (tasks s) =
      filter (\<lambda>t. completed t = JBool (lower v = ''true''))
        (filter (selected (a\<lparr>completed_arg := None\<rparr>)) (tasks s))"
    unfolding filter_filter by (rule filter_cong) (auto simp: selected_def)
  then have 1: "query_tasks s (a\<lparr>completed_arg := Some v\<rparr>) =
     filter (\<lambda>t. completed t = JBool (lower v = ''true''))
       (query_tasks s (a\<lparr>completed_arg := None\<rparr>))"
    by (simp only: query_tasks_eq filter_sort)
  have 2: "v \<in> {''1'', ''yes'', []} \<Longrightarrow> (lower v = ''true'') = False"
    by (auto simp: lower_def lower_char_def)
  have 3: "v \<in> {''true'', ''True'', ''TRUE''} \<Longrightarrow> (lower v = ''true'') = True"
    by (auto simp: lower_def lower_char_def)
  show ?thesis
    using 1 2 3 by (simp add: get_tasks_def Let_def)
qed

theorem get_tasks_completed_param_witness:
  "query_tasks sample_store (no_args\<lparr>completed_arg := Some ''yes''\<rparr>) =
     [sample_task\<lparr>task_id := 3, created_at := 30\<rparr>, sample_task] \<and>
   query_tasks sample_store (no_args\<lparr>completed_arg := None\<rparr>) =
     [sample_task\<lparr>task_id := 3, created_at := 30\<rparr>, sample_done, sample_task]"
proof -
  have n: "query_tasks sample_store (no_args\<lparr>completed_arg := None\<rparr>) =
     [sample_task\<lparr>task_id := 3, created_at := 30\<rparr>, sample_done, sample_task]"
    by (simp add: query_tasks_def Let_def sample_store_def sample_task_def sample_done_def
        no_args_def)
  have "query_tasks sample_store (no_args\<lparr>completed_arg := Some ''yes''\<rparr>) =
     filter (\<lambda>t. completed t = JBool False) (query_tasks sample_store (no_args\<lparr>completed_arg := None\<rparr>))"
    using get_tasks_completed_param [where s = sample_store and a = no_args and v = "''yes''"]
    by blast
  also have "\<dots> = [sample_task\<lparr>task_id := 3, created_at := 30\<rparr>, sample_task]"
    unfolding n by (simp add: sample_task_def sample_done_def)
  finally show ?thesis using n by simp
qed

section \<open>Statistics\<close>

text \<open>The rounding to a float: the exponent found is the right one, and the relative error is at most \<open>2\<^sup>-\<^sup>5\<^sup>3\<close>.\<close>

declare bit_length.simps [simp del]

lemma pow2_power_int: "pow2 e = power_int 2 e"
  by (simp add: pow2_def power_int_def inverse_eq_divide power_one_over)

lemma pow2_pos: "0 < pow2 e"
  by (simp add: pow2_power_int)

lemma pow2_add: "pow2 (a + b) = pow2 a * pow2 b"
  by (simp add: pow2_power_int power_int_add)

lemma pow2_mono: "a \<le> b \<Longrightarrow> pow2 a \<le> pow2 b"
  by (simp add: pow2_power_int power_int_increasing)

lemma pow2_diff: "pow2 (a - b) = pow2 a / pow2 b"
  by (simp add: pow2_power_int power_int_diff)

lemma bit_length_bounds:
  "0 < n \<Longrightarrow> 1 \<le> bit_length n \<and> 2 ^ nat (bit_length n - 1) \<le> n \<and> n < 2 ^ nat (bit_length n)"
proof (induction n rule: bit_length.induct)
  case (1 n)
  show ?case
  proof (cases "n = 1")
    case True
    have "bit_length 1 = 1"
      by (simp add: bit_length.simps [of 1] bit_length.simps [of 0])
    with True show ?thesis by simp
  next
    case False
    with "1.prems" have h: "0 < n div 2" by simp
    from "1.IH" [OF _ h] "1.prems"
    have ih: "1 \<le> bit_length (n div 2)" "2 ^ nat (bit_length (n div 2) - 1) \<le> n div 2"
      "n div 2 < 2 ^ nat (bit_length (n div 2))" by simp_all
    have b: "bit_length n = 1 + bit_length (n div 2)"
      using "1.prems" by (simp add: bit_length.simps [of n])
    have e1: "nat (bit_length n - 1) = Suc (nat (bit_length (n div 2) - 1))"
      and e2: "nat (bit_length n) = Suc (nat (bit_length (n div 2)))"
      using ih(1) b by simp_all
    have "2 * 2 ^ nat (bit_length (n div 2) - 1) \<le> n" using ih(2) by linarith
    then have l: "2 ^ nat (bit_length n - 1) \<le> n" by (simp only: e1 power_Suc)
    have "n < 2 * 2 ^ nat (bit_length (n div 2))" using ih(3) by linarith
    then have u: "n < 2 ^ nat (bit_length n)" by (simp only: e2 power_Suc)
    have "1 \<le> bit_length n" using ih(1) b by simp
    with l u show ?thesis by simp
  qed
qed

lemma floor_log2_bounds:
  assumes "0 < q"
  shows "pow2 (floor_log2 q) \<le> q \<and> q < pow2 (floor_log2 q + 1)"
proof -
  obtain n d where qd: "quotient_of q = (n, d)" by (cases "quotient_of q")
  then have d: "0 < d" and q: "q = of_int n / of_int d"
    using quotient_of_denom_pos quotient_of_div by blast+
  with assms have n: "0 < n" by (simp add: zero_less_divide_iff)
  let ?bn = "bit_length n" and ?bd = "bit_length d"
  from bit_length_bounds [OF n] have bn: "1 \<le> ?bn" "2 ^ nat (?bn - 1) \<le> n" "n < 2 ^ nat ?bn"
    by simp_all
  from bit_length_bounds [OF d] have bd: "1 \<le> ?bd" "2 ^ nat (?bd - 1) \<le> d" "d < 2 ^ nat ?bd"
    by simp_all
  have n1: "pow2 (?bn - 1) \<le> of_int n" and n2: "of_int n < pow2 ?bn"
    and d1: "pow2 (?bd - 1) \<le> of_int d" and d2: "of_int d < pow2 ?bd"
  proof -
    have "(of_int (2 ^ nat (?bn - 1)) :: rat) \<le> of_int n" using bn(2) by (simp only: of_int_le_iff)
    then show "pow2 (?bn - 1) \<le> of_int n" using bn(1) by (simp add: pow2_def)
    have "(of_int n :: rat) < of_int (2 ^ nat ?bn)" using bn(3) by (simp only: of_int_less_iff)
    then show "of_int n < pow2 ?bn" using bn(1) by (simp add: pow2_def)
    have "(of_int (2 ^ nat (?bd - 1)) :: rat) \<le> of_int d" using bd(2) by (simp only: of_int_le_iff)
    then show "pow2 (?bd - 1) \<le> of_int d" using bd(1) by (simp add: pow2_def)
    have "(of_int d :: rat) < of_int (2 ^ nat ?bd)" using bd(3) by (simp only: of_int_less_iff)
    then show "of_int d < pow2 ?bd" using bd(1) by (simp add: pow2_def)
  qed
  let ?e = "?bn - ?bd"
  have dpos: "(0::rat) < of_int d" using d by simp
  have lo: "pow2 (?e - 1) < q"
  proof -
    have "pow2 (?e - 1) * of_int d < pow2 (?e - 1) * pow2 ?bd"
      using d2 pow2_pos by simp
    also have "\<dots> = pow2 (?bn - 1)" by (simp add: pow2_add [symmetric])
    also have "\<dots> \<le> of_int n" by (rule n1)
    finally show ?thesis unfolding q using dpos by (simp add: pos_less_divide_eq)
  qed
  have hi: "q < pow2 (?e + 1)"
  proof -
    have "of_int n < pow2 ?bn" by (rule n2)
    also have "\<dots> = pow2 (?e + 1) * pow2 (?bd - 1)" by (simp add: pow2_add [symmetric])
    also have "\<dots> \<le> pow2 (?e + 1) * of_int d" using d1 pow2_pos by simp
    finally show ?thesis unfolding q using dpos by (simp add: pos_divide_less_eq)
  qed
  show ?thesis
  proof (cases "pow2 ?e \<le> q")
    case True
    then have "floor_log2 q = ?e" by (simp add: floor_log2_def qd)
    with True hi show ?thesis by simp
  next
    case False
    then have "floor_log2 q = ?e - 1" by (simp add: floor_log2_def qd)
    with False lo show ?thesis by simp
  qed
qed

lemma round_half_even_error: "\<bar>of_int (round_half_even x) - x\<bar> \<le> 1 / 2"
proof -
  have "of_int \<lfloor>x\<rfloor> \<le> x" "x < of_int \<lfloor>x\<rfloor> + 1" by linarith+
  then show ?thesis
    by (auto simp: round_half_even_def Let_def abs_le_iff)
qed

lemma float_round_error:
  assumes "pow2 (- 1022) \<le> q"
  shows "\<bar>float_round q - q\<bar> \<le> q / 2 ^ 53"
proof -
  have q: "0 < q" using assms pow2_pos [of "- 1022"] by linarith
  let ?f = "floor_log2 q"
  from floor_log2_bounds [OF q] have f: "pow2 ?f \<le> q" "q < pow2 (?f + 1)" by simp_all
  have "- 1022 \<le> ?f"
  proof (rule ccontr)
    assume "\<not> - 1022 \<le> ?f"
    then have "?f + 1 \<le> - 1022" by simp
    then have "pow2 (?f + 1) \<le> pow2 (- 1022)"
      by (rule pow2_mono)
    with f(2) assms show False by linarith
  qed
  then have e: "max (?f - 52) (- 1074) = ?f - 52" by simp
  let ?p = "pow2 (?f - 52)"
  have p: "0 < ?p" by (rule pow2_pos)
  let ?R = "of_int (round_half_even (q / ?p)) :: rat"
  have fr: "float_round q = ?R * ?p"
    using q by (simp add: float_round_def e Let_def)
  have "\<bar>?R - q / ?p\<bar> \<le> 1 / 2" by (rule round_half_even_error)
  then have "\<bar>?R - q / ?p\<bar> * ?p \<le> 1 / 2 * ?p" using p by (simp only: mult_le_cancel_right_pos)
  moreover have "\<bar>?R - q / ?p\<bar> * ?p = \<bar>?R * ?p - q\<bar>"
  proof -
    have "\<bar>?R - q / ?p\<bar> * ?p = \<bar>(?R - q / ?p) * ?p\<bar>" using p by (simp add: abs_mult)
    also have "(?R - q / ?p) * ?p = ?R * ?p - q" using p by (simp add: left_diff_distrib)
    finally show ?thesis .
  qed
  moreover have "1 / 2 * ?p = pow2 ?f / 2 ^ 53"
  proof -
    have "?p = pow2 ?f / pow2 52" by (rule pow2_diff)
    then show ?thesis by (simp add: pow2_def)
  qed
  ultimately have "\<bar>float_round q - q\<bar> \<le> pow2 ?f / 2 ^ 53" unfolding fr by simp
  also have "\<dots> \<le> q / 2 ^ 53" using f(1) by (simp add: divide_right_mono)
  finally show ?thesis .
qed


lemma rate_accuracy:
  fixes c t :: int
  assumes c: "0 < c" and ct: "c \<le> t" and t: "t \<le> 100000000000"
  shows "\<bar>of_int (round_half_even (float_mul (float_round (of_int c / of_int t)) 100 * 100)) - 10000 * of_int c / of_int t\<bar>
           \<le> (1 / 2 :: rat)"
proof -
  define q :: rat where "q = of_int c / of_int t"
  define x1 where "x1 = float_round q"
  define x2 where "x2 = float_round (x1 * 100)"
  define d where "d = round_half_even (x2 * 100)"
  have tpos: "(0::rat) < of_int t" using c ct by simp
  have q1: "q \<le> 1" unfolding q_def using c ct tpos by (simp add: pos_divide_le_eq)
  have small: "pow2 (- 1022) \<le> 1 / 100000000000"
  proof -
    have "pow2 (- 1022) \<le> pow2 (- 37)" by (rule pow2_mono) simp
    also have "\<dots> \<le> 1 / 100000000000" by (simp add: pow2_def)
    finally show ?thesis .
  qed
  have qlow: "1 / 100000000000 \<le> q"
  proof -
    have "(of_int t :: rat) \<le> of_int (100000000000)" using t by (simp only: of_int_le_iff)
    then have "(of_int t :: rat) \<le> 100000000000" by simp
    moreover have "(1::rat) \<le> of_int c" using c by simp
    ultimately have "(of_int t :: rat) \<le> of_int c * 100000000000" by linarith
    then show ?thesis unfolding q_def using tpos by (simp add: field_simps)
  qed
  have e1: "\<bar>x1 - q\<bar> \<le> q / 2 ^ 53"
    unfolding x1_def using small qlow by (intro float_round_error) linarith
  have qpos: "0 \<le> q" using qlow by linarith
  have e1n: "\<bar>x1 - q\<bar> \<le> q / 9007199254740992" using e1 by simp
  have e1': "\<bar>x1 - q\<bar> \<le> 1 / 9007199254740992" using e1n q1 by linarith
  have x1low: "pow2 (- 1022) \<le> x1 * 100"
  proof -
    have "q / 2 \<le> x1" using e1n qpos by linarith
    with qlow small show ?thesis by linarith
  qed
  have x1up: "x1 \<le> 2" using e1' q1 by linarith
  have e2: "\<bar>x2 - x1 * 100\<bar> \<le> x1 * 100 / 2 ^ 53"
    unfolding x2_def by (rule float_round_error [OF x1low])
  then have e2n: "\<bar>x2 - x1 * 100\<bar> \<le> x1 * 100 / 9007199254740992" by simp
  have e2': "\<bar>x2 - x1 * 100\<bar> \<le> 200 / 9007199254740992" using e2n x1up by linarith
  have e3: "\<bar>x2 * 100 - 10000 * q\<bar> \<le> 30000 / 9007199254740992"
    using e1' e2' by linarith
  have e4: "\<bar>of_int d - x2 * 100\<bar> \<le> 1 / 2"
    unfolding d_def by (rule round_half_even_error)
  have e5: "\<bar>of_int d - 10000 * q\<bar> \<le> 1 / 2 + 30000 / 9007199254740992"
    using e3 e4 by linarith
  define D where "D = d * t - 10000 * c"
  have Dq: "of_int D = (of_int d - 10000 * q) * of_int t"
    unfolding D_def q_def using tpos by (simp add: field_simps)
  have "\<bar>of_int D :: rat\<bar> = \<bar>of_int d - 10000 * q\<bar> * of_int t"
    unfolding Dq using tpos by (simp add: abs_mult)
  also have "\<dots> \<le> (1 / 2 + 30000 / 9007199254740992) * of_int t"
    using e5 tpos by (simp only: mult_le_cancel_right_pos)
  also have "\<dots> < of_int t / 2 + 1 / 2"
  proof -
    have "(of_int t :: rat) \<le> of_int (100000000000)" using t by (simp only: of_int_le_iff)
    then have "(of_int t :: rat) \<le> 100000000000" by simp
    then show ?thesis by (simp add: field_simps)
  qed
  finally have "\<bar>of_int D :: rat\<bar> < of_int t / 2 + 1 / 2" .
  then have "(of_int (2 * \<bar>D\<bar>) :: rat) < of_int (t + 1)" by simp
  then have "2 * \<bar>D\<bar> < t + 1" by (simp only: of_int_less_iff)
  then have "2 * \<bar>D\<bar> \<le> t" by simp
  then have "(of_int (2 * \<bar>D\<bar>) :: rat) \<le> of_int t" by (simp only: of_int_le_iff)
  then have "\<bar>of_int D :: rat\<bar> \<le> of_int t / 2" by simp
  then have "\<bar>of_int d - 10000 * q\<bar> * of_int t \<le> 1 / 2 * of_int t"
    unfolding Dq using tpos by (simp add: abs_mult)
  then have "\<bar>of_int d - 10000 * q\<bar> \<le> 1 / 2"
    using tpos by (simp only: mult_le_cancel_right_pos)
  then show ?thesis
    unfolding d_def x2_def x1_def q_def float_mul_def by (simp add: mult.commute)
qed


lemma float_round_0: "float_round 0 = 0"
  by (simp add: float_round_def)

lemma rate_positive:
  "0 < n \<Longrightarrow> rate k n = Inr (py_round2 (float_mul (float_round (of_int k / of_int n)) 100))"
  by (simp add: rate_def float_div_def bind_exn_def)

lemma rate_nearest:
  assumes "0 \<le> k" "k \<le> n" "0 < n" "n \<le> 100000000000"
  shows "\<exists>d. rate k n = Inr (float_round (of_int d / 100)) \<and>
           \<bar>of_int d / 100 - of_int k / of_int n * 100\<bar> \<le> (1 / 200 :: rat)"
proof (cases "k = 0")
  case True
  have "rate 0 n = Inr (float_round (of_int 0 / 100))"
    using assms(3)
    by (simp add: rate_positive py_round2_def float_mul_def float_round_0 round_half_even_def)
  with True show ?thesis by (intro exI [of _ 0]) simp
next
  case False
  with assms(1) have k: "0 < k" by simp
  let ?d = "round_half_even (float_mul (float_round (of_int k / of_int n)) 100 * 100)"
  have "\<bar>of_int ?d - 10000 * of_int k / of_int n\<bar> \<le> (1 / 2 :: rat)"
    by (rule rate_accuracy [OF k assms(2) assms(4)])
  then have "\<bar>of_int ?d / 100 - of_int k / of_int n * 100\<bar> \<le> (1 / 200 :: rat)"
    by (simp add: abs_le_iff field_simps)
  moreover have "rate k n = Inr (float_round (of_int ?d / 100))"
    using assms(3) by (simp add: rate_positive py_round2_def)
  ultimately show ?thesis by blast
qed

lemma rate_one_third: "rate 1 3 = Inr (float_round (3333 / 100))"
proof -
  have "py_round2 (float_mul (float_round (1 / 3)) 100) = float_round (3333 / 100)"
    by code_simp
  then show ?thesis by (simp add: rate_positive)
qed

lemma float_3333: "float_round (3333 / 100) = 2345390243441541 / 70368744177664"
  by code_simp

text \<open>
  C6. \<^verbatim>\<open>stats\<close> always answers 200; \<^verbatim>\<open>total_tasks\<close> is the number of stored tasks,
  \<^verbatim>\<open>completed_tasks\<close> the number of those whose \<open>completed\<close> is true, \<^verbatim>\<open>pending_tasks\<close>
  their difference. Without tasks the rate is 0 and nothing is divided. With tasks the
  rate is \<^verbatim>\<open>round(completed / total * 100, 2)\<close> in float arithmetic, and (for up to
  \<open>10\<^sup>1\<^sup>1\<close> tasks) that is the float nearest to a decimal \<open>d/100\<close> with two places
  that is nearest to the exact \<open>completed / total \<times> 100\<close>. With 3 tasks of which 1
  is completed the result is 3, 1, 2 and the float written \<^verbatim>\<open>33.33\<close>.
\<close>

theorem stats_correct:
  fixes s :: store
  defines "n \<equiv> int (length (tasks s))"
    and "k \<equiv> int (length (filter (\<lambda>t. completed t = JBool True) (tasks s)))"
  shows "\<exists>r. stats s =
        Success 200 \<lparr>total_tasks = n, completed_tasks = k, pending_tasks = n - k,
                     completion_rate = r\<rparr> \<and>
     (n = 0 \<longrightarrow> r = 0) \<and>
     (0 < n \<longrightarrow> r = py_round2 (float_mul (float_round (of_int k / of_int n)) 100)) \<and>
     (0 < n \<and> n \<le> 100000000000 \<longrightarrow>
        (\<exists>d. r = float_round (of_int d / 100) \<and>
              \<bar>of_int d / 100 - of_int k / of_int n * 100\<bar> \<le> (1 / 200 :: rat))) \<and>
     (n = 3 \<and> k = 1 \<longrightarrow>
        r = float_round (3333 / 100) \<and> \<bar>r - 3333 / 100\<bar> < 1 / 10 ^ 14)"
proof (cases "n = 0")
  case True
  then have "rate k n = Inr 0" by (simp add: rate_def)
  then have "stats s =
        Success 200 \<lparr>total_tasks = n, completed_tasks = k, pending_tasks = n - k,
                     completion_rate = 0\<rparr>"
    by (simp add: stats_def Let_def n_def k_def)
  with True show ?thesis by simp
next
  case False
  then have n: "0 < n" by (simp add: n_def)
  have k: "0 \<le> k" "k \<le> n" by (simp_all add: n_def k_def)
  let ?r = "py_round2 (float_mul (float_round (of_int k / of_int n)) 100)"
  have r: "rate k n = Inr ?r" using n by (rule rate_positive)
  then have 1: "stats s =
        Success 200 \<lparr>total_tasks = n, completed_tasks = k, pending_tasks = n - k,
                     completion_rate = ?r\<rparr>"
    by (simp add: stats_def Let_def n_def k_def)
  have 2: "n \<le> 100000000000 \<Longrightarrow>
      \<exists>d. ?r = float_round (of_int d / 100) \<and>
          \<bar>of_int d / 100 - of_int k / of_int n * 100\<bar> \<le> (1 / 200 :: rat)"
    using rate_nearest [OF k n] r by simp
  have 3: "n = 3 \<and> k = 1 \<Longrightarrow> ?r = float_round (3333 / 100) \<and> \<bar>?r - 3333 / 100\<bar> < 1 / 10 ^ 14"
    using r rate_one_third by (auto simp: float_3333)
  have 4: "n = 0 \<longrightarrow> ?r = 0" using n by simp
  have 5: "0 < n \<and> n \<le> 100000000000 \<longrightarrow>
      (\<exists>d. ?r = float_round (of_int d / 100) \<and>
          \<bar>of_int d / 100 - of_int k / of_int n * 100\<bar> \<le> (1 / 200 :: rat))"
    using 2 by (intro impI) (elim conjE)
  have 6: "n = 3 \<and> k = 1 \<longrightarrow> ?r = float_round (3333 / 100) \<and> \<bar>?r - 3333 / 100\<bar> < 1 / 10 ^ 14"
    using 3 by (intro impI)
  show ?thesis
    by (rule exI [of _ ?r]) (intro conjI 1 4 5 6 impI refl)
qed

theorem stats_correct_witness:
  "stats sample_store =
     Success 200 \<lparr>total_tasks = 3, completed_tasks = 1, pending_tasks = 2,
                  completion_rate = float_round (3333 / 100)\<rparr> \<and>
   stats \<lparr>tasks = [], categories = []\<rparr> =
     Success 200 \<lparr>total_tasks = 0, completed_tasks = 0, pending_tasks = 0, completion_rate = 0\<rparr>"
proof -
  have l: "int (length (tasks sample_store)) = 3"
    "int (length (filter (\<lambda>t. completed t = JBool True) (tasks sample_store))) = 1"
    by (simp_all add: sample_store_def sample_task_def sample_done_def)
  from stats_correct [of sample_store] have "stats sample_store =
     Success 200 \<lparr>total_tasks = 3, completed_tasks = 1, pending_tasks = 2,
                  completion_rate = float_round (3333 / 100)\<rparr>"
    unfolding l by auto
  moreover from stats_correct [of "\<lparr>tasks = [], categories = []\<rparr>"]
  have "stats \<lparr>tasks = [], categories = []\<rparr> =
     Success 200 \<lparr>total_tasks = 0, completed_tasks = 0, pending_tasks = 0, completion_rate = 0\<rparr>"
    by auto
  ultimately show ?thesis by simp
qed

end
